theory Spec2Isabelle
  imports Main
begin

section \<open>The Git SDK as GitUtils sees it\<close>

text \<open>
  \<^verbatim>\<open>wrapper/utils/GitUtils.py\<close> is glue over GitPython. The SDK is not part of the
  repository, so its operations are parameters of the model: a record \<open>sdk\<close> of functions
  over an arbitrary type \<open>'w\<close> of worlds (the repository on disk together with the remote
  server). Every theorem that mentions \<open>sdk\<close> as a variable holds for every behaviour of
  the SDK.

  Python exceptions are values of \<open>exn\<close>; an operation that raises returns \<open>Inl\<close>.
\<close>

datatype exn =
    InvalidGitRepositoryError
  | NoSuchPathError
  | AttributeError
  | TypeError
  | IndexError
  | GitCommandError

type_synonym commit = nat

text \<open>The handles \<^verbatim>\<open>Repo\<close> and \<^verbatim>\<open>Remote\<close>; \<^verbatim>\<open>str(remote)\<close> is the remote's name.\<close>

datatype Repo = Repo string

datatype Remote = Remote string

fun remote_str :: "Remote \<Rightarrow> string" where
  "remote_str (Remote n) = n"

text \<open>\<^verbatim>\<open>str\<close> of an optional handle, as the f-string \<^verbatim>\<open>f'{self.__gitRemote}/{branch}'\<close> takes it.\<close>

fun remote_opt_str :: "Remote option \<Rightarrow> string" where
  "remote_opt_str None = ''None''"
| "remote_opt_str (Some remote) = remote_str remote"

text \<open>
  \<^verbatim>\<open>FetchInfo\<close>: the name of the fetched reference (\<^verbatim>\<open>origin/main\<close>), the commit it
  points to, and the flag bits. The other attributes (\<^verbatim>\<open>note\<close>, \<^verbatim>\<open>old_commit\<close>,
  \<^verbatim>\<open>remote_ref_path\<close>) are only written to the debug log, which is not modelled.
\<close>

record FetchInfo =
  name :: string
  commit :: commit
  flags :: nat

text \<open>
  The SDK, one field per GitPython operation the source calls:
  \<^item> \<open>Repo_open w path\<close> is \<^verbatim>\<open>Repo(path)\<close>;
  \<^item> \<open>active_branch w\<close> is \<^verbatim>\<open>repo.active_branch\<close>, \<open>None\<close> when \<^verbatim>\<open>HEAD\<close> is detached
    (GitPython raises \<^verbatim>\<open>TypeError\<close>);
  \<^item> \<open>remotes w\<close> is \<^verbatim>\<open>repo.remotes\<close>;
  \<^item> \<open>is_dirty w\<close> is \<^verbatim>\<open>repo.is_dirty()\<close>;
  \<^item> \<open>heads w b\<close> is the commit of \<^verbatim>\<open>repo.heads[b]\<close>, \<open>None\<close> when there is no such
    local branch (GitPython raises \<^verbatim>\<open>IndexError\<close>);
  \<^item> \<open>fetch w remote\<close> is \<^verbatim>\<open>remote.fetch()\<close>, \<open>pull w remote\<close> is \<^verbatim>\<open>remote.pull()\<close>
    and \<open>checkout w b\<close> is \<^verbatim>\<open>repo.heads[b].checkout()\<close>; the three return the new world;
  \<^item> \<open>is_ancestor w a c\<close> is \<^verbatim>\<open>repo.is_ancestor(a, c)\<close>.
\<close>

record 'w sdk =
  Repo_open :: "'w \<Rightarrow> string \<Rightarrow> exn + Repo"
  active_branch :: "'w \<Rightarrow> string option"
  remotes :: "'w \<Rightarrow> Remote list"
  is_dirty :: "'w \<Rightarrow> bool"
  heads :: "'w \<Rightarrow> string \<Rightarrow> commit option"
  fetch :: "'w \<Rightarrow> Remote \<Rightarrow> (exn + FetchInfo list) \<times> 'w"
  pull :: "'w \<Rightarrow> Remote \<Rightarrow> (exn + unit) \<times> 'w"
  checkout_head :: "'w \<Rightarrow> string \<Rightarrow> (exn + unit) \<times> 'w"
  is_ancestor :: "'w \<Rightarrow> commit \<Rightarrow> commit \<Rightarrow> exn + bool"

text \<open>The SDK calls an operation makes, in order: what it read and what it changed.\<close>

datatype call =
    Call_Repo string
  | Call_active_branch
  | Call_remotes
  | Call_is_dirty
  | Call_heads string
  | Call_fetch
  | Call_pull
  | Call_checkout string
  | Call_is_ancestor commit commit

section \<open>The GitUtils object\<close>

text \<open>
  The three private attributes of a \<^verbatim>\<open>GitUtils\<close> object, the world it acts on and the
  log of SDK calls made so far.
\<close>

record 'w state =
  gitRepo :: "Repo option"
  gitRemote :: "Remote option"
  fetchBranchInfo :: "FetchInfo option"
  world :: 'w
  calls :: "call list"

type_synonym ('w, 'a) action = "'w state \<Rightarrow> (exn + 'a) \<times> 'w state"

definition called :: "call \<Rightarrow> 'w state \<Rightarrow> 'w state" where
  "called c s = s\<lparr>calls := calls s @ [c]\<rparr>"

subsection \<open>Attribute accesses on the optional handles\<close>

text \<open>
  \<^verbatim>\<open>self.__gitRepo.heads[branch].commit\<close>: \<^verbatim>\<open>AttributeError\<close> on \<^verbatim>\<open>None\<close>,
  \<^verbatim>\<open>IndexError\<close> when the branch does not exist.
\<close>

definition repo_heads_commit :: "'w sdk \<Rightarrow> string \<Rightarrow> ('w, commit) action" where
  "repo_heads_commit sdk branch s =
     (case gitRepo s of
        None \<Rightarrow> (Inl AttributeError, s)
      | Some repo \<Rightarrow>
          (case heads sdk (world s) branch of
             None \<Rightarrow> (Inl IndexError, called (Call_heads branch) s)
           | Some c \<Rightarrow> (Inr c, called (Call_heads branch) s)))"

text \<open>\<^verbatim>\<open>self.__gitRemote.fetch()\<close>.\<close>

definition remote_fetch :: "'w sdk \<Rightarrow> ('w, FetchInfo list) action" where
  "remote_fetch sdk s =
     (case gitRemote s of
        None \<Rightarrow> (Inl AttributeError, s)
      | Some remote \<Rightarrow>
          (case fetch sdk (world s) remote of
             (r, w') \<Rightarrow> (r, called Call_fetch (s\<lparr>world := w'\<rparr>))))"

text \<open>\<^verbatim>\<open>self.__gitRemote.pull()\<close>.\<close>

definition remote_pull :: "'w sdk \<Rightarrow> ('w, unit) action" where
  "remote_pull sdk s =
     (case gitRemote s of
        None \<Rightarrow> (Inl AttributeError, s)
      | Some remote \<Rightarrow>
          (case pull sdk (world s) remote of
             (r, w') \<Rightarrow> (r, called Call_pull (s\<lparr>world := w'\<rparr>))))"

text \<open>
  \<^verbatim>\<open>fetch_result[key]\<close> on GitPython's \<^verbatim>\<open>IterableList\<close>: the first item whose
  \<^verbatim>\<open>name\<close> is the key, \<^verbatim>\<open>IndexError\<close> when there is none.
\<close>

definition fetch_result_getitem :: "FetchInfo list \<Rightarrow> string \<Rightarrow> exn + FetchInfo" where
  "fetch_result_getitem fetch_result key =
     (case find (\<lambda>item. name item = key) fetch_result of
        None \<Rightarrow> Inl IndexError
      | Some item \<Rightarrow> Inr item)"

text \<open>\<^verbatim>\<open>self.__gitRepo.is_ancestor(remote_commit, current_commit)\<close>.\<close>

definition repo_is_ancestor :: "'w sdk \<Rightarrow> commit \<Rightarrow> commit \<Rightarrow> ('w, bool) action" where
  "repo_is_ancestor sdk a c s =
     (case gitRepo s of
        None \<Rightarrow> (Inl AttributeError, s)
      | Some repo \<Rightarrow> (is_ancestor sdk (world s) a c, called (Call_is_ancestor a c) s))"

text \<open>\<^verbatim>\<open>self.__gitRepo.heads[branch].checkout()\<close>.\<close>

definition repo_heads_checkout :: "'w sdk \<Rightarrow> string \<Rightarrow> ('w, unit) action" where
  "repo_heads_checkout sdk branch s =
     (case gitRepo s of
        None \<Rightarrow> (Inl AttributeError, s)
      | Some repo \<Rightarrow>
          (case heads sdk (world s) branch of
             None \<Rightarrow> (Inl IndexError, called (Call_heads branch) s)
           | Some c \<Rightarrow>
               (case checkout_head sdk (world s) branch of
                  (r, w') \<Rightarrow>
                    (r, called (Call_checkout branch)
                          (called (Call_heads branch) s\<lparr>world := w'\<rparr>)))))"

text \<open>Python's \<^verbatim>\<open>str.split(sep)\<close> for a one-character separator.\<close>

fun split :: "char \<Rightarrow> string \<Rightarrow> string list" where
  "split sep [] = [[]]"
| "split sep (c # cs) =
     (if c = sep then [] # split sep cs
      else (case split sep cs of
              [] \<Rightarrow> [[c]]
            | part # parts \<Rightarrow> (c # part) # parts))"

subsection \<open>The methods of GitUtils\<close>

text \<open>\<^verbatim>\<open>getCurrentBranch\<close>: \<^verbatim>\<open>str(self.__gitRepo.active_branch)\<close>.\<close>

definition getCurrentBranch :: "'w sdk \<Rightarrow> ('w, string) action" where
  "getCurrentBranch sdk s =
     (case gitRepo s of
        None \<Rightarrow> (Inl AttributeError, s)
      | Some repo \<Rightarrow>
          (case active_branch sdk (world s) of
             None \<Rightarrow> (Inl TypeError, called Call_active_branch s)
           | Some b \<Rightarrow> (Inr b, called Call_active_branch s)))"

text \<open>
  The loop of \<^verbatim>\<open>listBranch\<close>:
  \<^verbatim>\<open>for branch in ...: result.append(branch.name.split('/')[1])\<close>.
\<close>

fun listBranch_loop :: "FetchInfo list \<Rightarrow> string list \<Rightarrow> exn + string list" where
  "listBranch_loop [] result = Inr result"
| "listBranch_loop (branch # rest) result =
     (case split CHR ''/'' (name branch) of
        p0 # p1 # ps \<Rightarrow> listBranch_loop rest (result @ [p1])
      | _ \<Rightarrow> Inl IndexError)"

definition listBranch :: "'w sdk \<Rightarrow> ('w, string list) action" where
  "listBranch sdk s =
     (case gitRemote s of
        None \<Rightarrow> (Inr [], s)
      | Some remote \<Rightarrow>
          (case remote_fetch sdk s of
             (Inl e, s1) \<Rightarrow> (Inl e, s1)
           | (Inr fetched, s1) \<Rightarrow> (listBranch_loop fetched [], s1)))"

text \<open>
  \<^verbatim>\<open>safeCheck\<close>: \<^verbatim>\<open>is_dirty()\<close> is called twice, once for the warning and once for
  the result.
\<close>

definition safeCheck :: "'w sdk \<Rightarrow> ('w, bool) action" where
  "safeCheck sdk s =
     (case gitRepo s of
        None \<Rightarrow> (Inr False, s)
      | Some repo \<Rightarrow>
          (let s1 = called Call_is_dirty s;
               s2 = called Call_is_dirty s1
           in (Inr (\<not> is_dirty sdk (world s2)), s2)))"

text \<open>
  \<^verbatim>\<open>isUpToDate(branch=None)\<close>. The tests of the flag bits only choose debug messages.
\<close>

definition isUpToDate :: "'w sdk \<Rightarrow> string option \<Rightarrow> ('w, bool) action" where
  "isUpToDate sdk branch s =
     (case (case branch of None \<Rightarrow> getCurrentBranch sdk s | Some b \<Rightarrow> (Inr b, s)) of
        (Inl e, s1) \<Rightarrow> (Inl e, s1)
      | (Inr b, s1) \<Rightarrow>
     (case repo_heads_commit sdk b s1 of
        (Inl e, s2) \<Rightarrow> (Inl e, s2)
      | (Inr current_commit, s2) \<Rightarrow>
     (case remote_fetch sdk s2 of
        (Inl e, s3) \<Rightarrow> (Inl e, s3)
      | (Inr fetch_result, s3) \<Rightarrow>
     (case fetch_result_getitem fetch_result (remote_opt_str (gitRemote s3) @ ''/'' @ b) of
        Inl e \<Rightarrow> (Inl e, s3)
      | Inr info \<Rightarrow>
          (let s4 = s3\<lparr>fetchBranchInfo := Some info\<rparr>;
               remote_commit = commit info
           in repo_is_ancestor sdk remote_commit current_commit s4)))))"

text \<open>
  \<^verbatim>\<open>update\<close>. The current branch is read once more for the message
  \<^verbatim>\<open>Updating local git '...'\<close> before the pull.
\<close>

definition update :: "'w sdk \<Rightarrow> ('w, bool) action" where
  "update sdk s =
     (case safeCheck sdk s of
        (Inl e, s1) \<Rightarrow> (Inl e, s1)
      | (Inr safe, s1) \<Rightarrow>
          if \<not> safe then (Inr False, s1)
          else
     (case isUpToDate sdk None s1 of
        (Inl e, s2) \<Rightarrow> (Inl e, s2)
      | (Inr up_to_date, s2) \<Rightarrow>
          if up_to_date then (Inr False, s2)
          else if gitRemote s2 \<noteq> None then
            (case getCurrentBranch sdk s2 of
               (Inl e, s3) \<Rightarrow> (Inl e, s3)
             | (Inr b, s3) \<Rightarrow>
                 (case remote_pull sdk s3 of
                    (Inl e, s4) \<Rightarrow> (Inl e, s4)
                  | (Inr u, s4) \<Rightarrow> (Inr True, s4)))
          else (Inr False, s2)))"

text \<open>\<^verbatim>\<open>checkout(branch)\<close>.\<close>

definition checkout :: "'w sdk \<Rightarrow> string \<Rightarrow> ('w, bool) action" where
  "checkout sdk branch s =
     (case safeCheck sdk s of
        (Inl e, s1) \<Rightarrow> (Inl e, s1)
      | (Inr safe, s1) \<Rightarrow>
          if \<not> safe then (Inr False, s1)
          else
     (case getCurrentBranch sdk s1 of
        (Inl e, s2) \<Rightarrow> (Inl e, s2)
      | (Inr current, s2) \<Rightarrow>
          if branch = current then (Inr False, s2)
          else
     (case repo_heads_checkout sdk branch s2 of
        (Inl e, s3) \<Rightarrow> (Inl e, s3)
      | (Inr u, s3) \<Rightarrow> (Inr True, s3))))"

text \<open>
  \<^verbatim>\<open>__init__\<close>. The body of the \<^verbatim>\<open>try\<close> block first; \<^verbatim>\<open>root_path\<close> is
  \<^verbatim>\<open>ConstantConfig.root_path\<close>, which is not in the source and is a parameter.
  \<^verbatim>\<open>remotes['origin']\<close> raises \<^verbatim>\<open>IndexError\<close> when no remote has that name.
\<close>

definition init_try :: "'w sdk \<Rightarrow> string \<Rightarrow> ('w, unit) action" where
  "init_try sdk root_path s =
     (case Repo_open sdk (world s) root_path of
        Inl e \<Rightarrow> (Inl e, called (Call_Repo root_path) s)
      | Inr repo \<Rightarrow>
     (case getCurrentBranch sdk (called (Call_Repo root_path) s\<lparr>gitRepo := Some repo\<rparr>) of
        (Inl e, s1) \<Rightarrow> (Inl e, s1)
      | (Inr b, s1) \<Rightarrow>
          (let s2 = called Call_remotes s1 in
           if length (remotes sdk (world s2)) > 0 then
             (case find (\<lambda>r. remote_str r = ''origin'') (remotes sdk (world s2)) of
                None \<Rightarrow> (Inl IndexError, called Call_remotes s2)
              | Some origin \<Rightarrow> (Inr (), (called Call_remotes s2)\<lparr>gitRemote := Some origin\<rparr>))
           else (Inr (), called Call_remotes s2))))"

text \<open>
  The constructor: the attributes start as \<^verbatim>\<open>None\<close>; only
  \<^verbatim>\<open>InvalidGitRepositoryError\<close> is caught.
\<close>

definition init :: "'w sdk \<Rightarrow> string \<Rightarrow> 'w \<Rightarrow> (exn + unit) \<times> 'w state" where
  "init sdk root_path w =
     (case init_try sdk root_path
             \<lparr>gitRepo = None, gitRemote = None, fetchBranchInfo = None,
              world = w, calls = []\<rparr> of
        (Inl e, s) \<Rightarrow> if e = InvalidGitRepositoryError then (Inr (), s) else (Inl e, s)
      | (Inr u, s) \<Rightarrow> (Inr (), s))"

section \<open>An in-memory Git for concrete repositories\<close>

text \<open>
  Modelled from the spec: GitPython itself is not in the source. This small world stands
  in for it wherever an operation is evaluated on a concrete repository. It follows the
  glossary of the specification: a commit is an ancestor of another when it is reachable
  from it along parent links, and a pull fast-forwards the current branch to the commit
  the remote has for it.

  The uncommitted changes of the working tree are kept by kind, as the specification
  names them: \<open>staged\<close> are the paths whose index entry differs from the last commit,
  \<open>modified\<close> the tracked paths whose file differs from the index, and \<open>untracked\<close> the
  files that are in the working tree and not in the index.
\<close>

record git =
  valid :: bool
  HEAD :: "string option"
  branches :: "(string \<times> commit) list"
  staged :: "string list"
  modified :: "string list"
  untracked :: "string list"
  remote_list :: "Remote list"
  origin_branches :: "(string \<times> commit) list"
  parent_links :: "(commit \<times> commit) list"

text \<open>The commits reachable from \<open>c\<close> in at most \<open>n\<close> steps along \<open>(child, parent)\<close> links.\<close>

fun ancestors :: "(commit \<times> commit) list \<Rightarrow> nat \<Rightarrow> commit \<Rightarrow> commit list" where
  "ancestors links 0 c = [c]"
| "ancestors links (Suc n) c =
     c # concat (map (ancestors links n) (map snd (filter (\<lambda>l. fst l = c) links)))"

text \<open>
  GitPython's \<^verbatim>\<open>Repo.is_dirty(index=True, working_tree=True, untracked_files=False)\<close>:
  each argument switches one kind of change on, and a call without arguments, as
  \<^verbatim>\<open>safeCheck\<close> makes it, looks at the index and at the tracked files only.
\<close>

definition git_is_dirty :: "git \<Rightarrow> bool \<Rightarrow> bool \<Rightarrow> bool \<Rightarrow> bool" where
  "git_is_dirty w index working_tree untracked_files =
     ((index \<and> staged w \<noteq> []) \<or>
      (working_tree \<and> modified w \<noteq> []) \<or>
      (untracked_files \<and> untracked w \<noteq> []))"

definition git_fetch :: "git \<Rightarrow> Remote \<Rightarrow> (exn + FetchInfo list) \<times> git" where
  "git_fetch w remote =
     (Inr (map (\<lambda>bc. \<lparr>name = remote_str remote @ ''/'' @ fst bc, commit = snd bc, flags = 0\<rparr>)
             (origin_branches w)), w)"

definition git_pull :: "git \<Rightarrow> Remote \<Rightarrow> (exn + unit) \<times> git" where
  "git_pull w remote =
     (case HEAD w of
        None \<Rightarrow> (Inl GitCommandError, w)
      | Some b \<Rightarrow>
          (case map_of (origin_branches w) b of
             None \<Rightarrow> (Inl GitCommandError, w)
           | Some c \<Rightarrow>
               (Inr (), w\<lparr>branches := map (\<lambda>kv. if fst kv = b then (b, c) else kv) (branches w)\<rparr>)))"

definition git_sdk :: "git sdk" where
  "git_sdk =
     \<lparr>Repo_open = (\<lambda>w path. if valid w then Inr (Repo path) else Inl InvalidGitRepositoryError),
      active_branch = HEAD,
      remotes = remote_list,
      is_dirty = (\<lambda>w. git_is_dirty w True True False),
      heads = (\<lambda>w. map_of (branches w)),
      fetch = git_fetch,
      pull = git_pull,
      checkout_head = (\<lambda>w b. (Inr (), w\<lparr>HEAD := Some b\<rparr>)),
      is_ancestor = (\<lambda>w a c. Inr (a \<in> set (ancestors (parent_links w) (length (parent_links w)) c)))\<rparr>"

text \<open>
  A repository on branch \<open>main\<close> with one remote \<open>origin\<close>; commit 3 is a child of
  commit 2. \<open>local\<close> and \<open>remote\<close> are the commits of \<open>main\<close> here and on the remote;
  with \<open>d\<close> the tracked file \<^verbatim>\<open>README.md\<close> has been edited and not committed.
\<close>

definition repo_main :: "commit \<Rightarrow> commit \<Rightarrow> bool \<Rightarrow> git" where
  "repo_main local remote d =
     \<lparr>valid = True, HEAD = Some ''main'', branches = [(''main'', local)],
      staged = [], modified = (if d then [''README.md''] else []), untracked = [],
      remote_list = [Remote ''origin''], origin_branches = [(''main'', remote)],
      parent_links = [(3, 2)]\<rparr>"

text \<open>The same repository with no remote configured.\<close>

definition repo_no_remote :: git where
  "repo_no_remote =
     \<lparr>valid = True, HEAD = Some ''main'', branches = [(''main'', 1)], staged = [], modified = [], untracked = [],
      remote_list = [], origin_branches = [], parent_links = [(2, 1)]\<rparr>"

text \<open>A path that holds no repository.\<close>

definition no_repo :: git where
  "no_repo =
     \<lparr>valid = False, HEAD = None, branches = [], staged = [], modified = [], untracked = [],
      remote_list = [], origin_branches = [], parent_links = []\<rparr>"

text \<open>A remote with a branch whose name has a \<^verbatim>\<open>/\<close> in it.\<close>

definition repo_slash :: git where
  "repo_slash =
     \<lparr>valid = True, HEAD = Some ''main'', branches = [(''main'', 1)], staged = [], modified = [], untracked = [],
      remote_list = [Remote ''origin''],
      origin_branches = [(''main'', 1), (''feature/login'', 2)],
      parent_links = [(2, 1)]\<rparr>"

text \<open>
  A working tree with uncommitted changes of the given kinds and nothing else; the
  repository is on \<open>main\<close>, level with the remote.
\<close>

definition repo_changes :: "string list \<Rightarrow> string list \<Rightarrow> string list \<Rightarrow> git" where
  "repo_changes st md un =
     \<lparr>valid = True, HEAD = Some ''main'', branches = [(''main'', 2)],
      staged = st, modified = md, untracked = un,
      remote_list = [Remote ''origin''], origin_branches = [(''main'', 2)],
      parent_links = [(3, 2)]\<rparr>"

text \<open>The object a constructor call leaves behind, for a path and a world.\<close>

definition constructed :: "'w sdk \<Rightarrow> string \<Rightarrow> 'w \<Rightarrow> 'w state" where
  "constructed sdk root_path w = snd (init sdk root_path w)"

section \<open>What an operation left unchanged\<close>

text \<open>The calls made between two states.\<close>

definition new_calls :: "'w state \<Rightarrow> 'w state \<Rightarrow> call list" where
  "new_calls s s' = drop (length (calls s)) (calls s')"

text \<open>Calls that only read the repository.\<close>

fun is_read :: "call \<Rightarrow> bool" where
  "is_read Call_fetch = False"
| "is_read Call_pull = False"
| "is_read (Call_checkout b) = False"
| "is_read c = True"

text \<open>
  Nothing was changed between \<open>s\<close> and \<open>s'\<close>: the same world, the same attributes, and
  only reading calls were added to the log.
\<close>

definition unchanged :: "'w state \<Rightarrow> 'w state \<Rightarrow> bool" where
  "unchanged s s' =
     (world s' = world s \<and> gitRepo s' = gitRepo s \<and> gitRemote s' = gitRemote s \<and>
      fetchBranchInfo s' = fetchBranchInfo s \<and>
      take (length (calls s)) (calls s') = calls s \<and>
      list_all is_read (new_calls s s'))"

section \<open>Notions used by the statements\<close>

text \<open>The branch an up-to-date check is about: the one given, else the current branch.\<close>

definition branch_or_current :: "'w sdk \<Rightarrow> 'w \<Rightarrow> string option \<Rightarrow> string option" where
  "branch_or_current sdk w branch =
     (case branch of None \<Rightarrow> active_branch sdk w | Some b \<Rightarrow> Some b)"

text \<open>The SDK reads an up-to-date check makes to find the branch it is about.\<close>

definition branch_calls :: "string option \<Rightarrow> call list" where
  "branch_calls branch = (case branch of None \<Rightarrow> [Call_active_branch] | Some b \<Rightarrow> [])"

text \<open>
  Nothing but this program talks to the remote: a second fetch, right after a first one,
  returns the same result and leaves the world as the first one left it, and the first
  fetch did not move the current branch or any local branch.
\<close>

definition fetch_repeatable :: "'w sdk \<Rightarrow> 'w \<Rightarrow> Remote \<Rightarrow> bool" where
  "fetch_repeatable sdk w remote =
     (case fetch sdk w remote of
        (r, w') \<Rightarrow>
          fetch sdk w' remote = (r, w') \<and>
          active_branch sdk w' = active_branch sdk w \<and>
          heads sdk w' = heads sdk w)"

text \<open>\<open>n\<close> calls of \<open>update\<close> in a row; an exception ends the sequence.\<close>

fun updates :: "'w sdk \<Rightarrow> nat \<Rightarrow> 'w state \<Rightarrow> (exn + bool) list \<times> 'w state" where
  "updates sdk 0 s = ([], s)"
| "updates sdk (Suc n) s =
     (case update sdk s of
        (Inl e, s1) \<Rightarrow> ([Inl e], s1)
      | (Inr v, s1) \<Rightarrow>
          (case updates sdk n s1 of (rs, s2) \<Rightarrow> (Inr v # rs, s2)))"

text \<open>
  Two runs of an operation with the same outcome: the same result or exception, the same
  world, the same SDK calls and the same handles.
\<close>

definition same_outcome :: "(exn + 'a) \<times> 'w state \<Rightarrow> (exn + 'a) \<times> 'w state \<Rightarrow> bool" where
  "same_outcome p q =
     (fst p = fst q \<and> world (snd p) = world (snd q) \<and> calls (snd p) = calls (snd q) \<and>
      gitRepo (snd p) = gitRepo (snd q) \<and> gitRemote (snd p) = gitRemote (snd q))"

text \<open>The state a safety check leaves on a loaded repository: two reads of \<^verbatim>\<open>is_dirty()\<close>.\<close>

definition checked :: "'w state \<Rightarrow> 'w state" where
  "checked s = s\<lparr>calls := calls s @ [Call_is_dirty, Call_is_dirty]\<rparr>"

section \<open>Basic facts\<close>

lemma called_sel [simp]:
  "calls (called c s) = calls s @ [c]"
  "world (called c s) = world s"
  "gitRepo (called c s) = gitRepo s"
  "gitRemote (called c s) = gitRemote s"
  "fetchBranchInfo (called c s) = fetchBranchInfo s"
  by (simp_all add: called_def)

lemma safeCheck_None: "gitRepo s = None \<Longrightarrow> safeCheck sdk s = (Inr False, s)"
  by (simp add: safeCheck_def)

lemma safeCheck_Some:
  "gitRepo s = Some repo \<Longrightarrow>
   safeCheck sdk s =
     (Inr (\<not> is_dirty sdk (world s)), s\<lparr>calls := calls s @ [Call_is_dirty, Call_is_dirty]\<rparr>)"
  by (simp add: safeCheck_def called_def)

lemma update_None: "gitRepo s = None \<Longrightarrow> update sdk s = (Inr False, s)"
  by (simp add: update_def safeCheck_None)

lemma checkout_None: "gitRepo s = None \<Longrightarrow> checkout sdk branch s = (Inr False, s)"
  by (simp add: checkout_def safeCheck_None)

lemma listBranch_None: "gitRemote s = None \<Longrightarrow> listBranch sdk s = (Inr [], s)"
  by (simp add: listBranch_def)

lemma getCurrentBranch_None:
  "gitRepo s = None \<Longrightarrow> getCurrentBranch sdk s = (Inl AttributeError, s)"
  by (simp add: getCurrentBranch_def)

lemma init_invalid:
  "Repo_open sdk w root_path = Inl InvalidGitRepositoryError \<Longrightarrow>
   init sdk root_path w =
     (Inr (), \<lparr>gitRepo = None, gitRemote = None, fetchBranchInfo = None,
               world = w, calls = [Call_Repo root_path]\<rparr>)"
  by (simp add: init_def init_try_def called_def)

lemma constructed_no_repo:
  "constructed git_sdk root_path no_repo =
     \<lparr>gitRepo = None, gitRemote = None, fetchBranchInfo = None,
      world = no_repo, calls = [Call_Repo root_path]\<rparr>"
  by (simp add: constructed_def init_invalid git_sdk_def no_repo_def)

lemma constructed_repo_main:
  "constructed git_sdk root_path (repo_main a b d) =
     \<lparr>gitRepo = Some (Repo root_path), gitRemote = Some (Remote ''origin''),
      fetchBranchInfo = None, world = repo_main a b d,
      calls = [Call_Repo root_path, Call_active_branch, Call_remotes, Call_remotes]\<rparr>"
  by (simp add: constructed_def init_def init_try_def getCurrentBranch_def called_def
      git_sdk_def repo_main_def)

lemma constructed_repo_no_remote:
  "constructed git_sdk root_path repo_no_remote =
     \<lparr>gitRepo = Some (Repo root_path), gitRemote = None,
      fetchBranchInfo = None, world = repo_no_remote,
      calls = [Call_Repo root_path, Call_active_branch, Call_remotes, Call_remotes]\<rparr>"
  by (simp add: constructed_def init_def init_try_def getCurrentBranch_def called_def
      git_sdk_def repo_no_remote_def)

lemma constructed_repo_slash:
  "constructed git_sdk root_path repo_slash =
     \<lparr>gitRepo = Some (Repo root_path), gitRemote = Some (Remote ''origin''),
      fetchBranchInfo = None, world = repo_slash,
      calls = [Call_Repo root_path, Call_active_branch, Call_remotes, Call_remotes]\<rparr>"
  by (simp add: constructed_def init_def init_try_def getCurrentBranch_def called_def
      git_sdk_def repo_slash_def)

lemma constructed_repo_changes:
  "constructed git_sdk root_path (repo_changes st md un) =
     \<lparr>gitRepo = Some (Repo root_path), gitRemote = Some (Remote ''origin''),
      fetchBranchInfo = None, world = repo_changes st md un,
      calls = [Call_Repo root_path, Call_active_branch, Call_remotes, Call_remotes]\<rparr>"
  by (simp add: constructed_def init_def init_try_def getCurrentBranch_def called_def
      git_sdk_def repo_changes_def)

section \<open>The degraded state\<close>

text \<open>
  C10. With no repository handle loaded, \<open>safeCheck\<close> returns false, and so do \<open>update\<close>
  and \<open>checkout\<close>, whose first action is the safety check. None of them raises, and the
  state they return is the state they were given: the log of SDK calls has not grown, so
  neither the working tree nor any other part of the repository was looked at.
\<close>

theorem degraded_safeCheck_update_checkout:
  "gitRepo s = None \<Longrightarrow>
   safeCheck sdk s = (Inr False, s) \<and>
   update sdk s = (Inr False, s) \<and>
   checkout sdk branch s = (Inr False, s)"
  by (simp add: safeCheck_None update_None checkout_None)

theorem degraded_safeCheck_update_checkout_witness:
  "gitRepo (constructed git_sdk ''/exegol'' no_repo) = None \<and>
   safeCheck git_sdk (constructed git_sdk ''/exegol'' no_repo)
     = (Inr False, constructed git_sdk ''/exegol'' no_repo) \<and>
   update git_sdk (constructed git_sdk ''/exegol'' no_repo)
     = (Inr False, constructed git_sdk ''/exegol'' no_repo) \<and>
   checkout git_sdk ''dev'' (constructed git_sdk ''/exegol'' no_repo)
     = (Inr False, constructed git_sdk ''/exegol'' no_repo)"
  using degraded_safeCheck_update_checkout
    [of "constructed git_sdk ''/exegol'' no_repo" git_sdk "''dev''"]
  by (simp add: constructed_no_repo)

text \<open>
  C2, as the code has it. When the path holds no valid repository the constructor returns
  normally, with both handles unset and the world untouched. On the object it leaves,
  \<open>listBranch\<close> returns the empty list and \<open>safeCheck\<close>, \<open>update\<close> and \<open>checkout\<close> return
  false, all without raising and without a further SDK call; \<open>getCurrentBranch\<close> raises
  \<^verbatim>\<open>AttributeError\<close>.
\<close>

theorem not_a_repository_degrades:
  "Repo_open sdk w root_path = Inl InvalidGitRepositoryError \<Longrightarrow>
   fst (init sdk root_path w) = Inr () \<and>
   gitRepo (constructed sdk root_path w) = None \<and>
   gitRemote (constructed sdk root_path w) = None \<and>
   world (constructed sdk root_path w) = w \<and>
   listBranch sdk (constructed sdk root_path w) = (Inr [], constructed sdk root_path w) \<and>
   safeCheck sdk (constructed sdk root_path w) = (Inr False, constructed sdk root_path w) \<and>
   update sdk (constructed sdk root_path w) = (Inr False, constructed sdk root_path w) \<and>
   checkout sdk branch (constructed sdk root_path w)
     = (Inr False, constructed sdk root_path w) \<and>
   getCurrentBranch sdk (constructed sdk root_path w)
     = (Inl AttributeError, constructed sdk root_path w)"
  by (simp add: constructed_def init_invalid safeCheck_None update_None checkout_None
      listBranch_None getCurrentBranch_None)

theorem not_a_repository_degrades_witness:
  "Repo_open git_sdk no_repo ''/exegol'' = Inl InvalidGitRepositoryError \<and>
   fst (init git_sdk ''/exegol'' no_repo) = Inr () \<and>
   listBranch git_sdk (constructed git_sdk ''/exegol'' no_repo)
     = (Inr [], constructed git_sdk ''/exegol'' no_repo) \<and>
   update git_sdk (constructed git_sdk ''/exegol'' no_repo)
     = (Inr False, constructed git_sdk ''/exegol'' no_repo) \<and>
   checkout git_sdk ''dev'' (constructed git_sdk ''/exegol'' no_repo)
     = (Inr False, constructed git_sdk ''/exegol'' no_repo) \<and>
   getCurrentBranch git_sdk (constructed git_sdk ''/exegol'' no_repo)
     = (Inl AttributeError, constructed git_sdk ''/exegol'' no_repo)"
  using not_a_repository_degrades [of git_sdk no_repo "''/exegol''" "''dev''"]
  by (simp add: git_sdk_def no_repo_def)

text \<open>
  C2 as stated fails: after a constructor call on a path with no repository,
  \<open>getCurrentBranch\<close> and \<open>isUpToDate\<close> raise \<^verbatim>\<open>AttributeError\<close> instead of returning
  false or an empty value.
\<close>

theorem degraded_operations_raise:
  "fst (init git_sdk ''/exegol'' no_repo) = Inr () \<and>
   fst (getCurrentBranch git_sdk (constructed git_sdk ''/exegol'' no_repo))
     = Inl AttributeError \<and>
   fst (isUpToDate git_sdk None (constructed git_sdk ''/exegol'' no_repo))
     = Inl AttributeError \<and>
   fst (isUpToDate git_sdk (Some ''main'') (constructed git_sdk ''/exegol'' no_repo))
     = Inl AttributeError"
  unfolding constructed_no_repo
  by (simp add: init_invalid git_sdk_def no_repo_def
      getCurrentBranch_def isUpToDate_def repo_heads_commit_def)

section \<open>No remote configured\<close>

text \<open>
  C3. On a loaded, clean repository with no remote, \<open>listBranch\<close> returns the empty list
  without a fetch, but \<open>isUpToDate\<close> and \<open>update\<close> raise \<^verbatim>\<open>AttributeError\<close>: the fetch
  is attempted on the unset remote handle. No fetch or pull reaches the SDK.
\<close>

theorem no_remote_update_raises:
  "gitRepo (constructed git_sdk ''/exegol'' repo_no_remote) = Some (Repo ''/exegol'') \<and>
   gitRemote (constructed git_sdk ''/exegol'' repo_no_remote) = None \<and>
   listBranch git_sdk (constructed git_sdk ''/exegol'' repo_no_remote)
     = (Inr [], constructed git_sdk ''/exegol'' repo_no_remote) \<and>
   fst (isUpToDate git_sdk None (constructed git_sdk ''/exegol'' repo_no_remote))
     = Inl AttributeError \<and>
   fst (update git_sdk (constructed git_sdk ''/exegol'' repo_no_remote))
     = Inl AttributeError \<and>
   new_calls (constructed git_sdk ''/exegol'' repo_no_remote)
      (snd (update git_sdk (constructed git_sdk ''/exegol'' repo_no_remote)))
     = [Call_is_dirty, Call_is_dirty, Call_active_branch, Call_heads ''main'']"
  unfolding constructed_repo_no_remote
  by (simp add: listBranch_def update_def safeCheck_def
      isUpToDate_def getCurrentBranch_def repo_heads_commit_def remote_fetch_def
      called_def new_calls_def git_sdk_def git_is_dirty_def repo_no_remote_def)

section \<open>Listing the remote branches\<close>

text \<open>
  C7. For the remote reference \<^verbatim>\<open>origin/feature/login\<close> the element \<open>listBranch\<close>
  returns is \<^verbatim>\<open>feature\<close>, not \<^verbatim>\<open>feature/login\<close>: the name is split at every \<^verbatim>\<open>/\<close> and
  only the second part is kept.
\<close>

theorem listBranch_truncates_at_slash:
  "fst (git_fetch repo_slash (Remote ''origin''))
     = Inr [\<lparr>name = ''origin/main'', commit = 1, flags = 0\<rparr>,
            \<lparr>name = ''origin/feature/login'', commit = 2, flags = 0\<rparr>] \<and>
   fst (listBranch git_sdk (constructed git_sdk ''/exegol'' repo_slash))
     = Inr [''main'', ''feature'']"
  unfolding constructed_repo_slash
  by (simp add: listBranch_def remote_fetch_def called_def
      git_sdk_def git_fetch_def repo_slash_def)

section \<open>The safety check\<close>




section \<open>Checkout\<close>

text \<open>
  C6. When the branch asked for is the branch currently checked out, \<open>checkout\<close> returns
  false and changes nothing: the world (working tree and branch pointers) and the
  attributes of the object are as before, and only reading SDK calls were made. When the
  working tree is dirty, \<open>checkout\<close> returns false and changes nothing, whatever the
  branch argument is.
\<close>

theorem checkout_current_or_dirty:
  "(active_branch sdk (world s) = Some branch \<longrightarrow>
      fst (checkout sdk branch s) = Inr False \<and> unchanged s (snd (checkout sdk branch s))) \<and>
   (is_dirty sdk (world s) \<longrightarrow>
      fst (checkout sdk other s) = Inr False \<and> unchanged s (snd (checkout sdk other s)))"
  by (cases "gitRepo s")
    (auto simp: checkout_def safeCheck_def getCurrentBranch_def called_def unchanged_def
      new_calls_def Let_def)

theorem checkout_current_or_dirty_witness:
  "active_branch git_sdk (world (constructed git_sdk ''/exegol'' (repo_main 2 2 False)))
     = Some ''main'' \<and>
   fst (checkout git_sdk ''main'' (constructed git_sdk ''/exegol'' (repo_main 2 2 False)))
     = Inr False \<and>
   world (snd (checkout git_sdk ''main'' (constructed git_sdk ''/exegol'' (repo_main 2 2 False))))
     = repo_main 2 2 False \<and>
   is_dirty git_sdk (world (constructed git_sdk ''/exegol'' (repo_main 2 3 True))) \<and>
   fst (checkout git_sdk ''dev'' (constructed git_sdk ''/exegol'' (repo_main 2 3 True)))
     = Inr False \<and>
   world (snd (checkout git_sdk ''dev'' (constructed git_sdk ''/exegol'' (repo_main 2 3 True))))
     = repo_main 2 3 True"
  using checkout_current_or_dirty
    [of git_sdk "constructed git_sdk ''/exegol'' (repo_main 2 2 False)" "''main''" "''dev''"]
    checkout_current_or_dirty
    [of git_sdk "constructed git_sdk ''/exegol'' (repo_main 2 3 True)" "''main''" "''dev''"]
  unfolding constructed_repo_main
  by (simp add: unchanged_def git_sdk_def git_is_dirty_def repo_main_def)

section \<open>The up-to-date check\<close>

lemma isUpToDate_unfold:
  assumes "gitRepo s = Some repo" and "gitRemote s = Some remote"
  shows "isUpToDate sdk branch s =
     (case branch_or_current sdk (world s) branch of
        None \<Rightarrow> (Inl TypeError, s\<lparr>calls := calls s @ [Call_active_branch]\<rparr>)
      | Some b \<Rightarrow>
          (case heads sdk (world s) b of
             None \<Rightarrow>
               (Inl IndexError, s\<lparr>calls := calls s @ branch_calls branch @ [Call_heads b]\<rparr>)
           | Some c \<Rightarrow>
               (case fetch sdk (world s) remote of
                  (Inl e, w') \<Rightarrow>
                    (Inl e, s\<lparr>world := w',
                       calls := calls s @ branch_calls branch @ [Call_heads b, Call_fetch]\<rparr>)
                | (Inr fetched, w') \<Rightarrow>
                    (case find (\<lambda>item. name item = remote_str remote @ ''/'' @ b) fetched of
                       None \<Rightarrow>
                         (Inl IndexError, s\<lparr>world := w',
                            calls := calls s @ branch_calls branch @ [Call_heads b, Call_fetch]\<rparr>)
                     | Some info \<Rightarrow>
                         (is_ancestor sdk w' (commit info) c,
                          s\<lparr>world := w', fetchBranchInfo := Some info,
                            calls := calls s @ branch_calls branch @
                              [Call_heads b, Call_fetch, Call_is_ancestor (commit info) c]\<rparr>)))))"
  using assms
  by (cases branch)
    (simp_all add: isUpToDate_def branch_or_current_def branch_calls_def getCurrentBranch_def
      repo_heads_commit_def remote_fetch_def fetch_result_getitem_def repo_is_ancestor_def
      called_def Let_def split: option.split sum.split prod.split)

lemma isUpToDate_result:
  assumes "gitRepo s = Some repo" and "gitRemote s = Some remote"
  shows "fst (isUpToDate sdk branch s) =
     (case branch_or_current sdk (world s) branch of
        None \<Rightarrow> Inl TypeError
      | Some b \<Rightarrow>
          (case heads sdk (world s) b of
             None \<Rightarrow> Inl IndexError
           | Some c \<Rightarrow>
               (case fetch sdk (world s) remote of
                  (Inl e, w') \<Rightarrow> Inl e
                | (Inr fetched, w') \<Rightarrow>
                    (case find (\<lambda>item. name item = remote_str remote @ ''/'' @ b) fetched of
                       None \<Rightarrow> Inl IndexError
                     | Some info \<Rightarrow> is_ancestor sdk w' (commit info) c))))"
  unfolding isUpToDate_unfold [OF assms]
  by (simp split: option.split sum.split prod.split)

lemma isUpToDate_returns:
  assumes l: "gitRepo s = Some repo" and r: "gitRemote s = Some remote"
    and ret: "fst (isUpToDate sdk branch s) = Inr v"
  obtains b c fetched w' info where
    "branch_or_current sdk (world s) branch = Some b"
    and "heads sdk (world s) b = Some c"
    and "fetch sdk (world s) remote = (Inr fetched, w')"
    and "find (\<lambda>item. name item = remote_str remote @ ''/'' @ b) fetched = Some info"
    and "is_ancestor sdk w' (commit info) c = Inr v"
    and "snd (isUpToDate sdk branch s) =
           s\<lparr>world := w', fetchBranchInfo := Some info,
             calls := calls s @ branch_calls branch @
               [Call_heads b, Call_fetch, Call_is_ancestor (commit info) c]\<rparr>"
proof -
  note res = isUpToDate_result [OF l r, of sdk branch]
  obtain b where b: "branch_or_current sdk (world s) branch = Some b"
    using ret unfolding res by (cases "branch_or_current sdk (world s) branch") simp_all
  obtain c where c: "heads sdk (world s) b = Some c"
    using ret b unfolding res by (cases "heads sdk (world s) b") simp_all
  obtain r0 w' where f0: "fetch sdk (world s) remote = (r0, w')"
    by (cases "fetch sdk (world s) remote")
  obtain fetched where fr: "r0 = Inr fetched"
    using ret b c f0 unfolding res by (cases r0) simp_all
  have f: "fetch sdk (world s) remote = (Inr fetched, w')"
    using f0 fr by simp
  obtain info where
    i: "find (\<lambda>item. name item = remote_str remote @ ''/'' @ b) fetched = Some info"
    using ret b c f unfolding res
    by (cases "find (\<lambda>item. name item = remote_str remote @ ''/'' @ b) fetched") simp_all
  have a: "is_ancestor sdk w' (commit info) c = Inr v"
    using ret b c f i unfolding res by simp
  have st: "snd (isUpToDate sdk branch s) =
           s\<lparr>world := w', fetchBranchInfo := Some info,
             calls := calls s @ branch_calls branch @
               [Call_heads b, Call_fetch, Call_is_ancestor (commit info) c]\<rparr>"
    using b c f i unfolding isUpToDate_unfold [OF l r] by simp
  from b c f i a st show thesis by (rule that)
qed

lemma not_ancestor_of_strict_descendant:
  assumes "acyclic P" and "(B, A) \<in> P\<^sup>+"
  shows "(A, B) \<notin> P\<^sup>*"
proof
  assume "(A, B) \<in> P\<^sup>*"
  with assms(2) have "(B, B) \<in> P\<^sup>+" by (rule trancl_rtrancl_trancl)
  with assms(1) show False by (simp add: acyclic_def)
qed

lemma isUpToDate_True_fetched:
  assumes l: "gitRepo s = Some repo" and r: "gitRemote s = Some remote"
    and t: "fst (isUpToDate sdk branch s) = Inr True"
  shows "(\<exists>b c fetched w' info.
         branch_or_current sdk (world s) branch = Some b \<and>
         heads sdk (world s) b = Some c \<and>
         fetch sdk (world s) remote = (Inr fetched, w') \<and>
         find (\<lambda>item. name item = remote_str remote @ ''/'' @ b) fetched = Some info \<and>
         is_ancestor sdk w' (commit info) c = Inr True)"
proof -
  from l r t obtain b c fetched w' info where
      "branch_or_current sdk (world s) branch = Some b"
      "heads sdk (world s) b = Some c"
      "fetch sdk (world s) remote = (Inr fetched, w')"
      "find (\<lambda>item. name item = remote_str remote @ ''/'' @ b) fetched = Some info"
      "is_ancestor sdk w' (commit info) c = Inr True"
    by (rule isUpToDate_returns)
  then show ?thesis by blast
qed

lemma isUpToDate_True_if:
  assumes l: "gitRepo s = Some repo" and r: "gitRemote s = Some remote"
    and e: "(\<exists>b c fetched w' info.
         branch_or_current sdk (world s) branch = Some b \<and>
         heads sdk (world s) b = Some c \<and>
         fetch sdk (world s) remote = (Inr fetched, w') \<and>
         find (\<lambda>item. name item = remote_str remote @ ''/'' @ b) fetched = Some info \<and>
         is_ancestor sdk w' (commit info) c = Inr True)"
  shows "fst (isUpToDate sdk branch s) = Inr True"
proof -
  from e obtain b c fetched w' info where
      "branch_or_current sdk (world s) branch = Some b"
      "heads sdk (world s) b = Some c"
      "fetch sdk (world s) remote = (Inr fetched, w')"
      "find (\<lambda>item. name item = remote_str remote @ ''/'' @ b) fetched = Some info"
      "is_ancestor sdk w' (commit info) c = Inr True"
    by blast
  then show ?thesis
    by (simp add: isUpToDate_result [OF l r])
qed

lemma isUpToDate_False_strict_descendant:
  assumes l: "gitRepo s = Some repo" and r: "gitRemote s = Some remote"
    and h1: "branch_or_current sdk (world s) branch = Some lb"
    and h2: "heads sdk (world s) lb = Some A"
    and h3: "fetch sdk (world s) remote = (Inr items, wa)"
    and h4: "find (\<lambda>item. name item = remote_str remote @ ''/'' @ lb) items = Some found"
    and h5: "commit found = B"
    and h6: "is_ancestor sdk wa B A = Inr ((A, B) \<in> P\<^sup>*)"
    and h7: "acyclic P" and h8: "(B, A) \<in> P\<^sup>+"
  shows "fst (isUpToDate sdk branch s) = Inr False"
proof -
  from h7 h8 have na: "(A, B) \<notin> P\<^sup>*"
    by (rule not_ancestor_of_strict_descendant)
  have "fst (isUpToDate sdk branch s) = is_ancestor sdk wa (commit found) A"
    using h1 h2 h3 h4 by (simp add: isUpToDate_result [OF l r])
  also have "\<dots> = Inr ((A, B) \<in> P\<^sup>*)"
    unfolding h5 by (rule h6)
  also have "\<dots> = Inr False"
    using na by simp
  finally show ?thesis .
qed

text \<open>
  C1. On a loaded repository with a remote, \<open>isUpToDate branch\<close> returns true exactly
  when the branch (the current one if none is given) exists locally at some commit \<open>c\<close>,
  the fetch succeeds and has an item for that branch of the remote, and the SDK finds
  that item's commit to be an ancestor of \<open>c\<close>. In particular, let the SDK's ancestry
  test follow parent links \<open>P\<close> (pairs of a commit and one of its parents) that have no
  cycle: when the local branch is at \<open>A\<close> and the fetched commit \<open>B\<close> is a strict
  descendant of \<open>A\<close>, the result is false.
\<close>

theorem isUpToDate_iff_remote_is_ancestor:
  "gitRepo s = Some repo \<Longrightarrow> gitRemote s = Some remote \<Longrightarrow>
   ((fst (isUpToDate sdk branch s) = Inr True) =
      (\<exists>b c fetched w' info.
         branch_or_current sdk (world s) branch = Some b \<and>
         heads sdk (world s) b = Some c \<and>
         fetch sdk (world s) remote = (Inr fetched, w') \<and>
         find (\<lambda>item. name item = remote_str remote @ ''/'' @ b) fetched = Some info \<and>
         is_ancestor sdk w' (commit info) c = Inr True)) \<and>
   (branch_or_current sdk (world s) branch = Some lb \<and>
    heads sdk (world s) lb = Some A \<and>
    fetch sdk (world s) remote = (Inr items, wa) \<and>
    find (\<lambda>item. name item = remote_str remote @ ''/'' @ lb) items = Some found \<and>
    commit found = B \<and>
    is_ancestor sdk wa B A = Inr ((A, B) \<in> P\<^sup>*) \<and>
    acyclic P \<and> (B, A) \<in> P\<^sup>+ \<longrightarrow>
    fst (isUpToDate sdk branch s) = Inr False)"
proof (intro conjI impI)
  assume l: "gitRepo s = Some repo" and r: "gitRemote s = Some remote"
  show "(fst (isUpToDate sdk branch s) = Inr True) =
      (\<exists>b c fetched w' info.
         branch_or_current sdk (world s) branch = Some b \<and>
         heads sdk (world s) b = Some c \<and>
         fetch sdk (world s) remote = (Inr fetched, w') \<and>
         find (\<lambda>item. name item = remote_str remote @ ''/'' @ b) fetched = Some info \<and>
         is_ancestor sdk w' (commit info) c = Inr True)"
  proof (rule iffI)
    assume "fst (isUpToDate sdk branch s) = Inr True"
    with l r show "(\<exists>b c fetched w' info.
         branch_or_current sdk (world s) branch = Some b \<and>
         heads sdk (world s) b = Some c \<and>
         fetch sdk (world s) remote = (Inr fetched, w') \<and>
         find (\<lambda>item. name item = remote_str remote @ ''/'' @ b) fetched = Some info \<and>
         is_ancestor sdk w' (commit info) c = Inr True)"
      by (rule isUpToDate_True_fetched)
  next
    assume "(\<exists>b c fetched w' info.
         branch_or_current sdk (world s) branch = Some b \<and>
         heads sdk (world s) b = Some c \<and>
         fetch sdk (world s) remote = (Inr fetched, w') \<and>
         find (\<lambda>item. name item = remote_str remote @ ''/'' @ b) fetched = Some info \<and>
         is_ancestor sdk w' (commit info) c = Inr True)"
    with l r show "fst (isUpToDate sdk branch s) = Inr True"
      by (rule isUpToDate_True_if)
  qed
next
  assume l: "gitRepo s = Some repo" and r: "gitRemote s = Some remote"
  assume h: "branch_or_current sdk (world s) branch = Some lb \<and>
    heads sdk (world s) lb = Some A \<and>
    fetch sdk (world s) remote = (Inr items, wa) \<and>
    find (\<lambda>item. name item = remote_str remote @ ''/'' @ lb) items = Some found \<and>
    commit found = B \<and>
    is_ancestor sdk wa B A = Inr ((A, B) \<in> P\<^sup>*) \<and>
    acyclic P \<and> (B, A) \<in> P\<^sup>+"
  show "fst (isUpToDate sdk branch s) = Inr False"
    using l r h by (elim conjE) (rule isUpToDate_False_strict_descendant)
qed

theorem isUpToDate_iff_remote_is_ancestor_witness:
  "gitRepo (constructed git_sdk ''/exegol'' (repo_main 2 3 False)) = Some (Repo ''/exegol'') \<and>
   gitRemote (constructed git_sdk ''/exegol'' (repo_main 2 3 False)) = Some (Remote ''origin'') \<and>
   heads git_sdk (repo_main 2 3 False) ''main'' = Some 2 \<and>
   fetch git_sdk (repo_main 2 3 False) (Remote ''origin'')
     = (Inr [\<lparr>name = ''origin/main'', commit = 3, flags = 0\<rparr>], repo_main 2 3 False) \<and>
   acyclic {(3::nat, 2::nat)} \<and> (3::nat, 2::nat) \<in> {(3, 2)}\<^sup>+ \<and>
   fst (isUpToDate git_sdk None (constructed git_sdk ''/exegol'' (repo_main 2 3 False)))
     = Inr False \<and>
   fst (isUpToDate git_sdk None (constructed git_sdk ''/exegol'' (repo_main 2 2 False)))
     = Inr True"
proof -
  let ?s = "constructed git_sdk ''/exegol'' (repo_main 2 3 False)"
  let ?t = "constructed git_sdk ''/exegol'' (repo_main 2 2 False)"
  have l: "gitRepo ?s = Some (Repo ''/exegol'')" and r: "gitRemote ?s = Some (Remote ''origin'')"
    by (simp_all add: constructed_repo_main)
  have l': "gitRepo ?t = Some (Repo ''/exegol'')" and r': "gitRemote ?t = Some (Remote ''origin'')"
    by (simp_all add: constructed_repo_main)
  have w: "world ?s = repo_main 2 3 False" and w': "world ?t = repo_main 2 2 False"
    by (simp_all add: constructed_repo_main)
  have hd: "heads git_sdk (repo_main 2 3 False) ''main'' = Some 2"
    by (simp add: git_sdk_def repo_main_def)
  have ft: "fetch git_sdk (repo_main 2 3 False) (Remote ''origin'')
     = (Inr [\<lparr>name = ''origin/main'', commit = 3, flags = 0\<rparr>], repo_main 2 3 False)"
    by (simp add: git_sdk_def git_fetch_def repo_main_def)
  have "acyclic ({} :: (nat \<times> nat) set)" by (simp add: acyclic_def)
  then have ac: "acyclic {(3::nat, 2::nat)}" by simp
  have tr: "(3::nat, 2::nat) \<in> {(3, 2)}\<^sup>+" by (rule r_into_trancl') simp
  have na: "((2::nat, 3::nat) \<in> {(3, 2)}\<^sup>*) = False"
    by (simp add: rtrancl_insert)
  have an: "is_ancestor git_sdk (repo_main 2 3 False) 3 2 = Inr ((2::nat, 3::nat) \<in> {(3, 2)}\<^sup>*)"
    unfolding na by (simp add: git_sdk_def repo_main_def)
  have bc: "branch_or_current git_sdk (repo_main 2 3 False) None = Some ''main''"
    by (simp add: branch_or_current_def git_sdk_def repo_main_def)
  have fd: "find (\<lambda>item. name item = remote_str (Remote ''origin'') @ ''/'' @ ''main'')
      [\<lparr>name = ''origin/main'', commit = 3, flags = 0\<rparr>]
     = Some \<lparr>name = ''origin/main'', commit = 3, flags = 0\<rparr>"
    by simp
  have behind: "fst (isUpToDate git_sdk None ?s) = Inr False"
  proof (rule isUpToDate_iff_remote_is_ancestor
        [where lb = "''main''" and A = 2 and B = 3 and P = "{(3, 2)}"
          and wa = "repo_main 2 3 False"
          and items = "[\<lparr>name = ''origin/main'', commit = 3, flags = 0\<rparr>]"
          and found = "\<lparr>name = ''origin/main'', commit = 3, flags = 0\<rparr>",
          OF l r, THEN conjunct2, THEN mp])
    show "branch_or_current git_sdk (world ?s) None = Some ''main'' \<and>
      heads git_sdk (world ?s) ''main'' = Some 2 \<and>
      fetch git_sdk (world ?s) (Remote ''origin'')
        = (Inr [\<lparr>name = ''origin/main'', commit = 3, flags = 0\<rparr>], repo_main 2 3 False) \<and>
      find (\<lambda>item. name item = remote_str (Remote ''origin'') @ ''/'' @ ''main'')
        [\<lparr>name = ''origin/main'', commit = 3, flags = 0\<rparr>]
        = Some \<lparr>name = ''origin/main'', commit = 3, flags = 0\<rparr> \<and>
      commit \<lparr>name = ''origin/main'', commit = 3, flags = 0\<rparr> = 3 \<and>
      is_ancestor git_sdk (repo_main 2 3 False) 3 2 = Inr ((2::nat, 3::nat) \<in> {(3, 2)}\<^sup>*) \<and>
      acyclic {(3::nat, 2::nat)} \<and> (3, 2) \<in> {(3::nat, 2::nat)}\<^sup>+"
      unfolding w using bc hd ft fd an ac tr by (intro conjI) simp_all
  qed
  have same: "fst (isUpToDate git_sdk None ?t) = Inr True"
  proof (rule isUpToDate_iff_remote_is_ancestor [OF l' r', THEN conjunct1, THEN iffD2])
    have "branch_or_current git_sdk (world ?t) None = Some ''main'' \<and>
         heads git_sdk (world ?t) ''main'' = Some 2 \<and>
         fetch git_sdk (world ?t) (Remote ''origin'')
           = (Inr [\<lparr>name = ''origin/main'', commit = 2, flags = 0\<rparr>], repo_main 2 2 False) \<and>
         find (\<lambda>item. name item = remote_str (Remote ''origin'') @ ''/'' @ ''main'')
           [\<lparr>name = ''origin/main'', commit = 2, flags = 0\<rparr>]
           = Some \<lparr>name = ''origin/main'', commit = 2, flags = 0\<rparr> \<and>
         is_ancestor git_sdk (repo_main 2 2 False)
           (commit \<lparr>name = ''origin/main'', commit = 2, flags = 0\<rparr>) 2 = Inr True"
      unfolding w'
      by (simp add: branch_or_current_def git_sdk_def git_fetch_def repo_main_def)
    then show "\<exists>b c fetched w' info.
         branch_or_current git_sdk (world ?t) None = Some b \<and>
         heads git_sdk (world ?t) b = Some c \<and>
         fetch git_sdk (world ?t) (Remote ''origin'') = (Inr fetched, w') \<and>
         find (\<lambda>item. name item = remote_str (Remote ''origin'') @ ''/'' @ b) fetched = Some info \<and>
         is_ancestor git_sdk w' (commit info) c = Inr True"
      by blast
  qed
  from l r hd ft ac tr behind same show ?thesis by (intro conjI)
qed

section \<open>Update\<close>

lemma checked_sel [simp]:
  "calls (checked s) = calls s @ [Call_is_dirty, Call_is_dirty]"
  "world (checked s) = world s"
  "gitRepo (checked s) = gitRepo s"
  "gitRemote (checked s) = gitRemote s"
  "fetchBranchInfo (checked s) = fetchBranchInfo s"
  by (simp_all add: checked_def)

lemma safeCheck_checked:
  "gitRepo s = Some repo \<Longrightarrow>
   safeCheck sdk s = (Inr (\<not> is_dirty sdk (world s)), checked s)"
  by (simp add: safeCheck_Some checked_def)

lemma safeCheck_True:
  assumes "fst (safeCheck sdk s) = Inr True"
  obtains repo where "gitRepo s = Some repo" and "\<not> is_dirty sdk (world s)"
proof (cases "gitRepo s")
  case None
  with assms show thesis by (simp add: safeCheck_None)
next
  case (Some repo)
  with assms have "\<not> is_dirty sdk (world s)" by (simp add: safeCheck_Some)
  with Some show thesis by (rule that)
qed

lemma update_clean:
  assumes "gitRepo s = Some repo" and "\<not> is_dirty sdk (world s)"
  shows "update sdk s =
     (case isUpToDate sdk None (checked s) of
        (Inl e, s2) \<Rightarrow> (Inl e, s2)
      | (Inr up_to_date, s2) \<Rightarrow>
          if up_to_date then (Inr False, s2)
          else if gitRemote s2 \<noteq> None then
            (case getCurrentBranch sdk s2 of
               (Inl e, s3) \<Rightarrow> (Inl e, s3)
             | (Inr b, s3) \<Rightarrow>
                 (case remote_pull sdk s3 of
                    (Inl e, s4) \<Rightarrow> (Inl e, s4)
                  | (Inr u, s4) \<Rightarrow> (Inr True, s4)))
          else (Inr False, s2))"
  using assms by (simp add: update_def safeCheck_checked)

lemma isUpToDate_checked:
  assumes l: "gitRepo s = Some repo" and r: "gitRemote s = Some remote"
    and u: "fst (isUpToDate sdk None (checked s)) = Inr v"
  obtains t b c info where
    "isUpToDate sdk None (checked s) = (Inr v, t)"
    and "gitRepo t = Some repo" and "gitRemote t = Some remote"
    and "world t = snd (fetch sdk (world s) remote)"
    and "fetchBranchInfo t = Some info"
    and "calls t = calls s @ [Call_is_dirty, Call_is_dirty, Call_active_branch,
           Call_heads b, Call_fetch, Call_is_ancestor (commit info) c]"
proof -
  have l': "gitRepo (checked s) = Some repo" using l by simp
  have r': "gitRemote (checked s) = Some remote" using r by simp
  from l' r' u obtain b c fetched w' info where
      bc: "branch_or_current sdk (world (checked s)) None = Some b"
      and hd: "heads sdk (world (checked s)) b = Some c"
      and f: "fetch sdk (world (checked s)) remote = (Inr fetched, w')"
      and fd: "find (\<lambda>item. name item = remote_str remote @ ''/'' @ b) fetched = Some info"
      and an: "is_ancestor sdk w' (commit info) c = Inr v"
      and st: "snd (isUpToDate sdk None (checked s)) =
           (checked s)\<lparr>world := w', fetchBranchInfo := Some info,
             calls := calls (checked s) @ branch_calls None @
               [Call_heads b, Call_fetch, Call_is_ancestor (commit info) c]\<rparr>"
    by (rule isUpToDate_returns)
  define t where "t = snd (isUpToDate sdk None (checked s))"
  have i: "isUpToDate sdk None (checked s) = (Inr v, t)"
    using u unfolding t_def by (simp add: prod_eq_iff)
  have lt: "gitRepo t = Some repo" unfolding t_def st using l by simp
  have rt: "gitRemote t = Some remote" unfolding t_def st using r by simp
  have wt: "world t = snd (fetch sdk (world s) remote)"
    unfolding t_def st using f by simp
  have ft: "fetchBranchInfo t = Some info" unfolding t_def st by simp
  have ct: "calls t = calls s @ [Call_is_dirty, Call_is_dirty, Call_active_branch,
           Call_heads b, Call_fetch, Call_is_ancestor (commit info) c]"
    unfolding t_def st by (simp add: branch_calls_def)
  from i lt rt wt ft ct show thesis by (rule that)
qed

lemma update_case_unsafe:
  "fst (safeCheck sdk s) = Inr False \<longrightarrow>
     fst (update sdk s) = Inr False \<and> unchanged s (snd (update sdk s))"
proof (rule impI, cases "gitRepo s")
  case None
  then show "fst (update sdk s) = Inr False \<and> unchanged s (snd (update sdk s))"
    by (simp add: update_None unchanged_def new_calls_def)
next
  case (Some repo)
  assume "fst (safeCheck sdk s) = Inr False"
  with Some have d: "is_dirty sdk (world s)" by (simp add: safeCheck_Some)
  have "update sdk s = (Inr False, checked s)"
    using Some d by (simp add: update_def safeCheck_checked)
  then show "fst (update sdk s) = Inr False \<and> unchanged s (snd (update sdk s))"
    by (simp add: unchanged_def new_calls_def)
qed

lemma update_case_up_to_date:
  "fst (safeCheck sdk s) = Inr True \<and> gitRemote s = Some remote \<and>
   fst (isUpToDate sdk None (snd (safeCheck sdk s))) = Inr True \<longrightarrow>
     fst (update sdk s) = Inr False \<and>
     Call_pull \<notin> set (new_calls s (snd (update sdk s))) \<and>
     Call_fetch \<in> set (new_calls s (snd (update sdk s))) \<and>
     fetchBranchInfo (snd (update sdk s)) \<noteq> None \<and>
     world (snd (update sdk s)) = snd (fetch sdk (world s) remote)"
proof (rule impI, elim conjE)
  assume sc: "fst (safeCheck sdk s) = Inr True" and r: "gitRemote s = Some remote"
    and u0: "fst (isUpToDate sdk None (snd (safeCheck sdk s))) = Inr True"
  from sc obtain repo where l: "gitRepo s = Some repo" and cl: "\<not> is_dirty sdk (world s)"
    by (rule safeCheck_True)
  have u: "fst (isUpToDate sdk None (checked s)) = Inr True"
    using u0 by (simp add: safeCheck_checked [OF l])
  from l r u obtain t b c info where
      i: "isUpToDate sdk None (checked s) = (Inr True, t)"
      and lt: "gitRepo t = Some repo" and rt: "gitRemote t = Some remote"
      and wt: "world t = snd (fetch sdk (world s) remote)"
      and ft: "fetchBranchInfo t = Some info"
      and ct: "calls t = calls s @ [Call_is_dirty, Call_is_dirty, Call_active_branch,
           Call_heads b, Call_fetch, Call_is_ancestor (commit info) c]"
    by (rule isUpToDate_checked)
  have up: "update sdk s = (Inr False, t)"
    unfolding update_clean [OF l cl] i by simp
  show "fst (update sdk s) = Inr False \<and>
     Call_pull \<notin> set (new_calls s (snd (update sdk s))) \<and>
     Call_fetch \<in> set (new_calls s (snd (update sdk s))) \<and>
     fetchBranchInfo (snd (update sdk s)) \<noteq> None \<and>
     world (snd (update sdk s)) = snd (fetch sdk (world s) remote)"
    unfolding up by (simp add: new_calls_def ct wt ft)
qed

lemma update_case_behind:
  "fst (safeCheck sdk s) = Inr True \<and> gitRemote s = Some remote \<and>
   fst (isUpToDate sdk None (snd (safeCheck sdk s))) = Inr False \<and>
   active_branch sdk (snd (fetch sdk (world s) remote)) = Some current \<longrightarrow>
     fst (update sdk s) =
       (case fst (pull sdk (snd (fetch sdk (world s) remote)) remote) of
          Inl e \<Rightarrow> Inl e | Inr u \<Rightarrow> Inr True) \<and>
     world (snd (update sdk s)) = snd (pull sdk (snd (fetch sdk (world s) remote)) remote) \<and>
     count_list (new_calls s (snd (update sdk s))) Call_pull = 1"
proof (rule impI, elim conjE)
  assume sc: "fst (safeCheck sdk s) = Inr True" and r: "gitRemote s = Some remote"
    and u0: "fst (isUpToDate sdk None (snd (safeCheck sdk s))) = Inr False"
    and a: "active_branch sdk (snd (fetch sdk (world s) remote)) = Some current"
  from sc obtain repo where l: "gitRepo s = Some repo" and cl: "\<not> is_dirty sdk (world s)"
    by (rule safeCheck_True)
  have u: "fst (isUpToDate sdk None (checked s)) = Inr False"
    using u0 by (simp add: safeCheck_checked [OF l])
  from l r u obtain t b c info where
      i: "isUpToDate sdk None (checked s) = (Inr False, t)"
      and lt: "gitRepo t = Some repo" and rt: "gitRemote t = Some remote"
      and wt: "world t = snd (fetch sdk (world s) remote)"
      and ft: "fetchBranchInfo t = Some info"
      and ct: "calls t = calls s @ [Call_is_dirty, Call_is_dirty, Call_active_branch,
           Call_heads b, Call_fetch, Call_is_ancestor (commit info) c]"
    by (rule isUpToDate_checked)
  obtain res wb where p: "pull sdk (world t) remote = (res, wb)"
    by (cases "pull sdk (world t) remote")
  define t' where "t' = called Call_pull ((called Call_active_branch t)\<lparr>world := wb\<rparr>)"
  have g: "getCurrentBranch sdk t = (Inr current, called Call_active_branch t)"
    using lt a by (simp add: getCurrentBranch_def wt)
  have rp: "remote_pull sdk (called Call_active_branch t) = (res, t')"
    using rt p by (simp add: remote_pull_def t'_def)
  have up: "update sdk s = ((case res of Inl e \<Rightarrow> Inl e | Inr u \<Rightarrow> Inr True), t')"
    unfolding update_clean [OF l cl] i using rt g rp by (cases res) simp_all
  have wt': "world t' = wb" by (simp add: t'_def)
  have ct': "calls t' = calls s @ [Call_is_dirty, Call_is_dirty, Call_active_branch,
           Call_heads b, Call_fetch, Call_is_ancestor (commit info) c,
           Call_active_branch, Call_pull]"
    by (simp add: t'_def ct)
  have pw: "pull sdk (snd (fetch sdk (world s) remote)) remote = (res, wb)"
    using p by (simp add: wt)
  show "fst (update sdk s) =
       (case fst (pull sdk (snd (fetch sdk (world s) remote)) remote) of
          Inl e \<Rightarrow> Inl e | Inr u \<Rightarrow> Inr True) \<and>
     world (snd (update sdk s)) = snd (pull sdk (snd (fetch sdk (world s) remote)) remote) \<and>
     count_list (new_calls s (snd (update sdk s))) Call_pull = 1"
    unfolding up pw by (simp add: new_calls_def ct' wt')
qed

lemma safeCheck_repo_main:
  "safeCheck git_sdk (constructed git_sdk root_path (repo_main a b d)) =
     (Inr (\<not> d), checked (constructed git_sdk root_path (repo_main a b d)))"
  unfolding constructed_repo_main
  by (simp add: safeCheck_def checked_def called_def git_sdk_def git_is_dirty_def repo_main_def)

lemma isUpToDate_repo_main_level:
  "isUpToDate git_sdk None (constructed git_sdk root_path (repo_main 2 2 d)) =
     (Inr True, (constructed git_sdk root_path (repo_main 2 2 d))
        \<lparr>fetchBranchInfo := Some \<lparr>name = ''origin/main'', commit = 2, flags = 0\<rparr>,
         calls := calls (constructed git_sdk root_path (repo_main 2 2 d)) @
           [Call_active_branch, Call_heads ''main'', Call_fetch, Call_is_ancestor 2 2]\<rparr>)"
  unfolding constructed_repo_main
  by (simp add: isUpToDate_def getCurrentBranch_def repo_heads_commit_def remote_fetch_def
      fetch_result_getitem_def repo_is_ancestor_def called_def Let_def
      git_sdk_def git_fetch_def repo_main_def)

lemma isUpToDate_repo_main_behind:
  "fst (isUpToDate git_sdk None (checked (constructed git_sdk root_path (repo_main 2 3 d))))
     = Inr False"
  unfolding constructed_repo_main
  by (simp add: isUpToDate_def getCurrentBranch_def repo_heads_commit_def remote_fetch_def
      fetch_result_getitem_def repo_is_ancestor_def called_def checked_def Let_def
      git_sdk_def git_fetch_def repo_main_def)

lemma isUpToDate_checked_repo_main_level:
  "fst (isUpToDate git_sdk None (checked (constructed git_sdk root_path (repo_main 2 2 d))))
     = Inr True"
  unfolding constructed_repo_main
  by (simp add: isUpToDate_def getCurrentBranch_def repo_heads_commit_def remote_fetch_def
      fetch_result_getitem_def repo_is_ancestor_def called_def checked_def Let_def
      git_sdk_def git_fetch_def repo_main_def)

text \<open>
  C4 as stated fails on the up-to-date path: on a clean repository whose \<open>main\<close> is level
  with the remote, \<open>update\<close> returns false after it has fetched from the remote and
  stored the fetched branch information in the object.
\<close>

theorem update_up_to_date_has_effects:
  "fst (update git_sdk (constructed git_sdk ''/exegol'' (repo_main 2 2 False))) = Inr False \<and>
   new_calls (constructed git_sdk ''/exegol'' (repo_main 2 2 False))
      (snd (update git_sdk (constructed git_sdk ''/exegol'' (repo_main 2 2 False))))
     = [Call_is_dirty, Call_is_dirty, Call_active_branch, Call_heads ''main'', Call_fetch,
        Call_is_ancestor 2 2] \<and>
   fetchBranchInfo (constructed git_sdk ''/exegol'' (repo_main 2 2 False)) = None \<and>
   fetchBranchInfo (snd (update git_sdk (constructed git_sdk ''/exegol'' (repo_main 2 2 False))))
     = Some \<lparr>name = ''origin/main'', commit = 2, flags = 0\<rparr>"
  unfolding constructed_repo_main
  by (simp add: update_def safeCheck_def isUpToDate_def getCurrentBranch_def
      repo_heads_commit_def remote_fetch_def fetch_result_getitem_def repo_is_ancestor_def
      called_def new_calls_def Let_def git_sdk_def git_is_dirty_def git_fetch_def repo_main_def)

text \<open>
  C4, as the code has it. \<open>update\<close> has three outcomes.
  \<^item> When the safety check fails, it returns false and changes nothing.
  \<^item> When the check passes, a remote is configured and the current branch is up to date,
    it returns false and makes no pull; it has fetched from the remote, so the world is
    the one the fetch left, and the fetched branch information is stored in the object.
  \<^item> When the check passes, a remote is configured, the current branch is not up to date
    and \<^verbatim>\<open>HEAD\<close> is still on a branch after the fetch, it makes exactly one pull, on
    the world the fetch left, and returns true when the pull succeeds; an exception of
    the pull is passed on.
\<close>

theorem update_cases:
  "(fst (safeCheck sdk s) = Inr False \<longrightarrow>
     fst (update sdk s) = Inr False \<and> unchanged s (snd (update sdk s))) \<and>
   (fst (safeCheck sdk s) = Inr True \<and> gitRemote s = Some remote \<and>
    fst (isUpToDate sdk None (snd (safeCheck sdk s))) = Inr True \<longrightarrow>
     fst (update sdk s) = Inr False \<and>
     Call_pull \<notin> set (new_calls s (snd (update sdk s))) \<and>
     Call_fetch \<in> set (new_calls s (snd (update sdk s))) \<and>
     fetchBranchInfo (snd (update sdk s)) \<noteq> None \<and>
     world (snd (update sdk s)) = snd (fetch sdk (world s) remote)) \<and>
   (fst (safeCheck sdk s) = Inr True \<and> gitRemote s = Some remote \<and>
    fst (isUpToDate sdk None (snd (safeCheck sdk s))) = Inr False \<and>
    active_branch sdk (snd (fetch sdk (world s) remote)) = Some current \<longrightarrow>
     fst (update sdk s) =
       (case fst (pull sdk (snd (fetch sdk (world s) remote)) remote) of
          Inl e \<Rightarrow> Inl e | Inr u \<Rightarrow> Inr True) \<and>
     world (snd (update sdk s)) = snd (pull sdk (snd (fetch sdk (world s) remote)) remote) \<and>
     count_list (new_calls s (snd (update sdk s))) Call_pull = 1)"
  by (intro conjI update_case_unsafe update_case_up_to_date update_case_behind)

theorem update_cases_witness:
  "fst (safeCheck git_sdk (constructed git_sdk ''/exegol'' (repo_main 2 3 True))) = Inr False \<and>
   fst (update git_sdk (constructed git_sdk ''/exegol'' (repo_main 2 3 True))) = Inr False \<and>
   world (snd (update git_sdk (constructed git_sdk ''/exegol'' (repo_main 2 3 True))))
     = repo_main 2 3 True \<and>
   fst (isUpToDate git_sdk None
      (snd (safeCheck git_sdk (constructed git_sdk ''/exegol'' (repo_main 2 2 False)))))
     = Inr True \<and>
   fst (update git_sdk (constructed git_sdk ''/exegol'' (repo_main 2 2 False))) = Inr False \<and>
   world (snd (update git_sdk (constructed git_sdk ''/exegol'' (repo_main 2 2 False))))
     = repo_main 2 2 False \<and>
   fst (isUpToDate git_sdk None
      (snd (safeCheck git_sdk (constructed git_sdk ''/exegol'' (repo_main 2 3 False)))))
     = Inr False \<and>
   fst (update git_sdk (constructed git_sdk ''/exegol'' (repo_main 2 3 False))) = Inr True \<and>
   world (snd (update git_sdk (constructed git_sdk ''/exegol'' (repo_main 2 3 False))))
     = repo_main 3 3 False"
proof -
  let ?D = "constructed git_sdk ''/exegol'' (repo_main 2 3 True)"
  let ?U = "constructed git_sdk ''/exegol'' (repo_main 2 2 False)"
  let ?B = "constructed git_sdk ''/exegol'' (repo_main 2 3 False)"
  have sd: "fst (safeCheck git_sdk ?D) = Inr False" by (simp add: safeCheck_repo_main)
  have su: "fst (safeCheck git_sdk ?U) = Inr True" by (simp add: safeCheck_repo_main)
  have sb: "fst (safeCheck git_sdk ?B) = Inr True" by (simp add: safeCheck_repo_main)
  have ru: "gitRemote ?U = Some (Remote ''origin'')" by (simp add: constructed_repo_main)
  have rb: "gitRemote ?B = Some (Remote ''origin'')" by (simp add: constructed_repo_main)
  have iu: "fst (isUpToDate git_sdk None (snd (safeCheck git_sdk ?U))) = Inr True"
    by (simp add: safeCheck_repo_main isUpToDate_checked_repo_main_level)
  have ib: "fst (isUpToDate git_sdk None (snd (safeCheck git_sdk ?B))) = Inr False"
    by (simp add: safeCheck_repo_main isUpToDate_repo_main_behind)
  have wd: "world ?D = repo_main 2 3 True" by (simp add: constructed_repo_main)
  have wu: "world ?U = repo_main 2 2 False" by (simp add: constructed_repo_main)
  have wb: "world ?B = repo_main 2 3 False" by (simp add: constructed_repo_main)
  have fu: "snd (fetch git_sdk (repo_main 2 2 False) (Remote ''origin'')) = repo_main 2 2 False"
    by (simp add: git_sdk_def git_fetch_def)
  have fb: "snd (fetch git_sdk (repo_main 2 3 False) (Remote ''origin'')) = repo_main 2 3 False"
    by (simp add: git_sdk_def git_fetch_def)
  have ab: "active_branch git_sdk (snd (fetch git_sdk (world ?B) (Remote ''origin'')))
      = Some ''main''"
    unfolding wb fb by (simp add: git_sdk_def repo_main_def)
  have pb: "pull git_sdk (repo_main 2 3 False) (Remote ''origin'')
      = (Inr (), repo_main 3 3 False)"
    by (simp add: git_sdk_def git_pull_def repo_main_def)
  have d: "fst (update git_sdk ?D) = Inr False \<and> unchanged ?D (snd (update git_sdk ?D))"
    using sd by (rule update_cases [THEN conjunct1, THEN mp])
  have u: "fst (update git_sdk ?U) = Inr False \<and>
     Call_pull \<notin> set (new_calls ?U (snd (update git_sdk ?U))) \<and>
     Call_fetch \<in> set (new_calls ?U (snd (update git_sdk ?U))) \<and>
     fetchBranchInfo (snd (update git_sdk ?U)) \<noteq> None \<and>
     world (snd (update git_sdk ?U)) = snd (fetch git_sdk (world ?U) (Remote ''origin''))"
    using su ru iu
    by (intro update_cases [THEN conjunct2, THEN conjunct1, THEN mp] conjI)
  have b: "fst (update git_sdk ?B) =
       (case fst (pull git_sdk (snd (fetch git_sdk (world ?B) (Remote ''origin'')))
                     (Remote ''origin'')) of
          Inl e \<Rightarrow> Inl e | Inr u \<Rightarrow> Inr True) \<and>
     world (snd (update git_sdk ?B))
       = snd (pull git_sdk (snd (fetch git_sdk (world ?B) (Remote ''origin'')))
                (Remote ''origin'')) \<and>
     count_list (new_calls ?B (snd (update git_sdk ?B))) Call_pull = 1"
    using sb rb ib ab
    by (intro update_cases [THEN conjunct2, THEN conjunct2, THEN mp] conjI)
  have d1: "fst (update git_sdk ?D) = Inr False" using d by (rule conjunct1)
  have d2: "world (snd (update git_sdk ?D)) = repo_main 2 3 True"
    using d wd by (simp add: unchanged_def)
  have u1: "fst (update git_sdk ?U) = Inr False" using u by (rule conjunct1)
  have u2: "world (snd (update git_sdk ?U)) = repo_main 2 2 False"
    using u unfolding wu fu by simp
  have b1: "fst (update git_sdk ?B) = Inr True"
    using b unfolding wb fb pb by simp
  have b2: "world (snd (update git_sdk ?B)) = repo_main 3 3 False"
    using b unfolding wb fb pb by simp
  from sd d1 d2 iu u1 u2 ib b1 b2 show ?thesis by (intro conjI)
qed

section \<open>Repeated updates\<close>

lemma fetch_repeatable_fetched:
  assumes "fetch_repeatable sdk w remote" and "fetch sdk w remote = (r, w')"
  shows "fetch sdk w' remote = (r, w')"
    and "active_branch sdk w' = active_branch sdk w"
    and "heads sdk w' = heads sdk w"
  using assms by (simp_all add: fetch_repeatable_def)

lemma fetch_repeatable_again:
  assumes "fetch_repeatable sdk w remote" and "fetch sdk w remote = (r, w')"
  shows "fetch_repeatable sdk w' remote"
  using assms by (simp add: fetch_repeatable_def)

lemma update_up_to_date_step:
  assumes l: "gitRepo s = Some repo" and r: "gitRemote s = Some remote"
    and fr: "fetch_repeatable sdk (world s) remote"
    and u: "fst (isUpToDate sdk None s) = Inr True"
  obtains t xs where "update sdk s = (Inr False, t)"
    and "gitRepo t = Some repo" and "gitRemote t = Some remote"
    and "fetch_repeatable sdk (world t) remote"
    and "fst (isUpToDate sdk None t) = Inr True"
    and "calls t = calls s @ xs" and "Call_pull \<notin> set xs"
proof -
  have l': "gitRepo (checked s) = Some repo" using l by simp
  have r': "gitRemote (checked s) = Some remote" using r by simp
  have "fst (isUpToDate sdk None (checked s)) = fst (isUpToDate sdk None s)"
    unfolding isUpToDate_result [OF l r] isUpToDate_result [OF l' r'] checked_sel
    by (rule refl)
  with u have u': "fst (isUpToDate sdk None (checked s)) = Inr True" by simp
  show thesis
  proof (cases "is_dirty sdk (world s)")
    case True
    have up: "update sdk s = (Inr False, checked s)"
      using l True by (simp add: update_def safeCheck_checked)
    have fr': "fetch_repeatable sdk (world (checked s)) remote" using fr by simp
    have c: "calls (checked s) = calls s @ [Call_is_dirty, Call_is_dirty]" by simp
    have np: "Call_pull \<notin> set [Call_is_dirty, Call_is_dirty]" by simp
    from up l' r' fr' u' c np show thesis by (rule that)
  next
    case False
    from l' r' u' obtain b c fetched w' info where
        bc: "branch_or_current sdk (world (checked s)) None = Some b"
        and hd: "heads sdk (world (checked s)) b = Some c"
        and f: "fetch sdk (world (checked s)) remote = (Inr fetched, w')"
        and fd: "find (\<lambda>item. name item = remote_str remote @ ''/'' @ b) fetched = Some info"
        and an: "is_ancestor sdk w' (commit info) c = Inr True"
        and st: "snd (isUpToDate sdk None (checked s)) =
             (checked s)\<lparr>world := w', fetchBranchInfo := Some info,
               calls := calls (checked s) @ branch_calls None @
                 [Call_heads b, Call_fetch, Call_is_ancestor (commit info) c]\<rparr>"
      by (rule isUpToDate_returns)
    define t where "t = snd (isUpToDate sdk None (checked s))"
    have i: "isUpToDate sdk None (checked s) = (Inr True, t)"
      using u' unfolding t_def by (simp add: prod_eq_iff)
    have up: "update sdk s = (Inr False, t)"
      unfolding update_clean [OF l False] i by simp
    have lt: "gitRepo t = Some repo" unfolding t_def st using l by simp
    have rt: "gitRemote t = Some remote" unfolding t_def st using r by simp
    have wt: "world t = w'" unfolding t_def st by simp
    have fa: "fetch sdk (world s) remote = (Inr fetched, w')" using f by simp
    have frt: "fetch_repeatable sdk (world t) remote"
      unfolding wt using fr fa by (rule fetch_repeatable_again)
    have fb: "fetch sdk w' remote = (Inr fetched, w')"
      using fr fa by (rule fetch_repeatable_fetched(1))
    have ab: "active_branch sdk w' = active_branch sdk (world s)"
      using fr fa by (rule fetch_repeatable_fetched(2))
    have hb: "heads sdk w' = heads sdk (world s)"
      using fr fa by (rule fetch_repeatable_fetched(3))
    have ut: "fst (isUpToDate sdk None t) = Inr True"
      using bc hd fb fd an
      by (simp add: isUpToDate_result [OF lt rt] wt branch_or_current_def ab hb)
    have ct: "calls t = calls s @ ([Call_is_dirty, Call_is_dirty] @ branch_calls None @
                 [Call_heads b, Call_fetch, Call_is_ancestor (commit info) c])"
      unfolding t_def st by simp
    have np: "Call_pull \<notin> set ([Call_is_dirty, Call_is_dirty] @ branch_calls None @
                 [Call_heads b, Call_fetch, Call_is_ancestor (commit info) c])"
      by (simp add: branch_calls_def)
    from up lt rt frt ut ct np show thesis by (rule that)
  qed
qed

lemma updates_up_to_date:
  "gitRepo s = Some repo \<Longrightarrow> gitRemote s = Some remote \<Longrightarrow>
   fetch_repeatable sdk (world s) remote \<Longrightarrow> fst (isUpToDate sdk None s) = Inr True \<Longrightarrow>
   fst (updates sdk n s) = replicate n (Inr False) \<and>
   (\<exists>xs. calls (snd (updates sdk n s)) = calls s @ xs \<and> Call_pull \<notin> set xs)"
proof (induction n arbitrary: s)
  case 0
  show ?case by simp
next
  case (Suc n)
  from Suc.prems obtain t xs where up: "update sdk s = (Inr False, t)"
      and lt: "gitRepo t = Some repo" and rt: "gitRemote t = Some remote"
      and frt: "fetch_repeatable sdk (world t) remote"
      and ut: "fst (isUpToDate sdk None t) = Inr True"
      and ct: "calls t = calls s @ xs" and np: "Call_pull \<notin> set xs"
    by (rule update_up_to_date_step)
  from lt rt frt ut have ih: "fst (updates sdk n t) = replicate n (Inr False) \<and>
      (\<exists>ys. calls (snd (updates sdk n t)) = calls t @ ys \<and> Call_pull \<notin> set ys)"
    by (rule Suc.IH)
  then obtain ys where ra: "fst (updates sdk n t) = replicate n (Inr False)"
      and cb: "calls (snd (updates sdk n t)) = calls t @ ys" and nb: "Call_pull \<notin> set ys"
    by blast
  have e: "updates sdk (Suc n) s = (Inr False # fst (updates sdk n t), snd (updates sdk n t))"
    using up by (simp add: split_beta)
  have "fst (updates sdk (Suc n) s) = replicate (Suc n) (Inr False)"
    unfolding e using ra by simp
  moreover have "calls (snd (updates sdk (Suc n) s)) = calls s @ (xs @ ys)"
    unfolding e using cb ct by simp
  moreover have "Call_pull \<notin> set (xs @ ys)" using np nb by simp
  ultimately show ?case by blast
qed

lemma isUpToDate_fst_repo_main_level:
  "fst (isUpToDate git_sdk None (constructed git_sdk root_path (repo_main 2 2 d))) = Inr True"
  by (simp add: isUpToDate_repo_main_level)



section \<open>The stored fetch information\<close>

lemma same_outcome_state:
  fixes p q :: "(exn + 'a) \<times> 'w state"
  assumes "same_outcome p q"
  shows "fst p = fst q"
    and "snd p = (snd q)\<lparr>fetchBranchInfo := fetchBranchInfo (snd p)\<rparr>"
  using assms by (simp_all add: same_outcome_def)

lemma getCurrentBranch_same_outcome:
  "same_outcome (getCurrentBranch sdk (s\<lparr>fetchBranchInfo := x\<rparr>)) (getCurrentBranch sdk s)"
  by (simp add: same_outcome_def getCurrentBranch_def split: option.split)

lemma listBranch_same_outcome:
  "same_outcome (listBranch sdk (s\<lparr>fetchBranchInfo := x\<rparr>)) (listBranch sdk s)"
  by (simp add: same_outcome_def listBranch_def remote_fetch_def
      split: option.split prod.split sum.split)

lemma safeCheck_same_outcome:
  "same_outcome (safeCheck sdk (s\<lparr>fetchBranchInfo := x\<rparr>)) (safeCheck sdk s)"
  by (simp add: same_outcome_def safeCheck_def Let_def split: option.split)

lemma isUpToDate_no_repo:
  "gitRepo s = None \<Longrightarrow> isUpToDate sdk branch s = (Inl AttributeError, s)"
  by (cases branch) (simp_all add: isUpToDate_def getCurrentBranch_def repo_heads_commit_def)

lemma isUpToDate_no_remote:
  "gitRemote s = None \<Longrightarrow> \<exists>e. fst (isUpToDate sdk branch s) = Inl e"
  by (cases branch)
    (simp_all add: isUpToDate_def getCurrentBranch_def repo_heads_commit_def remote_fetch_def
      split: option.split)

lemma isUpToDate_same_outcome:
  "same_outcome (isUpToDate sdk branch (s\<lparr>fetchBranchInfo := x\<rparr>)) (isUpToDate sdk branch s)"
proof (cases "gitRepo s")
  case None
  then show ?thesis by (simp add: same_outcome_def isUpToDate_no_repo)
next
  case (Some repo)
  note l = this
  show ?thesis
  proof (cases "gitRemote s")
    case None
    then show ?thesis
      by (cases branch)
        (simp_all add: same_outcome_def isUpToDate_def getCurrentBranch_def
          repo_heads_commit_def remote_fetch_def split: option.split)
  next
    case (Some remote)
    note r = this
    have l': "gitRepo (s\<lparr>fetchBranchInfo := x\<rparr>) = Some repo" using l by simp
    have r': "gitRemote (s\<lparr>fetchBranchInfo := x\<rparr>) = Some remote" using r by simp
    show ?thesis
      unfolding same_outcome_def isUpToDate_unfold [OF l r] isUpToDate_unfold [OF l' r']
      by (simp split: option.split sum.split prod.split)
  qed
qed

lemma update_tail_same_outcome:
  fixes p q :: "(exn + bool) \<times> 'w state"
  assumes "same_outcome p q"
  shows "same_outcome
     (case p of
        (Inl e, s2) \<Rightarrow> (Inl e, s2)
      | (Inr up_to_date, s2) \<Rightarrow>
          if up_to_date then (Inr False, s2)
          else if gitRemote s2 \<noteq> None then
            (case getCurrentBranch sdk s2 of
               (Inl e, s3) \<Rightarrow> (Inl e, s3)
             | (Inr b, s3) \<Rightarrow>
                 (case remote_pull sdk s3 of
                    (Inl e, s4) \<Rightarrow> (Inl e, s4)
                  | (Inr u, s4) \<Rightarrow> (Inr True, s4)))
          else (Inr False, s2))
     (case q of
        (Inl e, s2) \<Rightarrow> (Inl e, s2)
      | (Inr up_to_date, s2) \<Rightarrow>
          if up_to_date then (Inr False, s2)
          else if gitRemote s2 \<noteq> None then
            (case getCurrentBranch sdk s2 of
               (Inl e, s3) \<Rightarrow> (Inl e, s3)
             | (Inr b, s3) \<Rightarrow>
                 (case remote_pull sdk s3 of
                    (Inl e, s4) \<Rightarrow> (Inl e, s4)
                  | (Inr u, s4) \<Rightarrow> (Inr True, s4)))
          else (Inr False, s2))"
proof -
  obtain res t where q: "q = (res, t)" by (cases q)
  obtain y where p: "p = (res, t\<lparr>fetchBranchInfo := y\<rparr>)"
  proof
    show "p = (res, t\<lparr>fetchBranchInfo := fetchBranchInfo (snd p)\<rparr>)"
      using same_outcome_state [OF assms] q by (simp add: prod_eq_iff)
  qed
  show ?thesis
    unfolding p q
    by (auto simp: same_outcome_def getCurrentBranch_def remote_pull_def
        split: sum.split option.split prod.split)
qed

lemma update_same_outcome:
  "same_outcome (update sdk (s\<lparr>fetchBranchInfo := x\<rparr>)) (update sdk s)"
proof (cases "gitRepo s")
  case None
  then show ?thesis by (simp add: same_outcome_def update_None)
next
  case (Some repo)
  note l = this
  have l': "gitRepo (s\<lparr>fetchBranchInfo := x\<rparr>) = Some repo" using l by simp
  show ?thesis
  proof (cases "is_dirty sdk (world s)")
    case True
    then show ?thesis
      using l by (simp add: same_outcome_def update_def safeCheck_checked)
  next
    case False
    then have cl': "\<not> is_dirty sdk (world (s\<lparr>fetchBranchInfo := x\<rparr>))" by simp
    have c: "checked (s\<lparr>fetchBranchInfo := x\<rparr>) = (checked s)\<lparr>fetchBranchInfo := x\<rparr>"
      by (simp add: checked_def)
    have "same_outcome (isUpToDate sdk None ((checked s)\<lparr>fetchBranchInfo := x\<rparr>))
            (isUpToDate sdk None (checked s))"
      by (rule isUpToDate_same_outcome)
    then show ?thesis
      unfolding update_clean [OF l False] update_clean [OF l' cl'] c
      by (rule update_tail_same_outcome)
  qed
qed

lemma checkout_same_outcome:
  "same_outcome (checkout sdk b (s\<lparr>fetchBranchInfo := x\<rparr>)) (checkout sdk b s)"
  by (cases "gitRepo s")
    (simp_all add: same_outcome_def checkout_def safeCheck_def getCurrentBranch_def
      repo_heads_checkout_def Let_def split: option.split prod.split sum.split)

lemma isUpToDate_stores_fetched:
  assumes "fst (isUpToDate sdk branch s) = Inr v"
  shows "\<exists>remote fetched info.
      gitRemote s = Some remote \<and>
      fst (fetch sdk (world s) remote) = Inr fetched \<and> info \<in> set fetched \<and>
      fetchBranchInfo (snd (isUpToDate sdk branch s)) = Some info \<and>
      Call_fetch \<in> set (new_calls s (snd (isUpToDate sdk branch s)))"
proof -
  obtain repo where l: "gitRepo s = Some repo"
    using assms by (cases "gitRepo s") (simp_all add: isUpToDate_no_repo)
  obtain remote where r: "gitRemote s = Some remote"
    using assms isUpToDate_no_remote [of s sdk branch] by (cases "gitRemote s") auto
  from l r assms obtain b c fetched w' info where
      bc: "branch_or_current sdk (world s) branch = Some b"
      and hd: "heads sdk (world s) b = Some c"
      and f: "fetch sdk (world s) remote = (Inr fetched, w')"
      and fd: "find (\<lambda>item. name item = remote_str remote @ ''/'' @ b) fetched = Some info"
      and an: "is_ancestor sdk w' (commit info) c = Inr v"
      and st: "snd (isUpToDate sdk branch s) =
           s\<lparr>world := w', fetchBranchInfo := Some info,
             calls := calls s @ branch_calls branch @
               [Call_heads b, Call_fetch, Call_is_ancestor (commit info) c]\<rparr>"
    by (rule isUpToDate_returns)
  have m: "info \<in> set fetched"
    using fd by (auto simp: find_Some_iff)
  have ff: "fst (fetch sdk (world s) remote) = Inr fetched" using f by simp
  have fi: "fetchBranchInfo (snd (isUpToDate sdk branch s)) = Some info"
    unfolding st by simp
  have cf: "Call_fetch \<in> set (new_calls s (snd (isUpToDate sdk branch s)))"
    unfolding st by (simp add: new_calls_def)
  from r ff m fi cf show ?thesis by blast
qed




end
